theory Spec2Isabelle
  imports Complex_Main "HOL-Library.Sublist"
begin

section \<open>EOG cleaning: the dispatcher of \<open>neurokit2/eog/eog_clean.py\<close>\<close>

text \<open>
  The module holds one public function, \<open>eog_clean\<close>, and three private presets.
  It computes nothing itself: it converts its input with \<open>as_vector\<close>, lowers the
  method string, and hands the vector to \<open>signal_filter\<close> or to
  \<open>mne.filter.filter_data\<close> with fixed parameters. The three collaborators live
  outside the module, so they are parameters of the model; each may raise.
\<close>

subsection \<open>Exceptions\<close>

text \<open>
  \<open>ValueError\<close> and \<open>ImportError\<close> are the two exceptions the module builds itself
  (lines 71 and 113); each carries the tuple of arguments it was constructed with.
  \<open>Propagated e\<close> is an exception \<open>e\<close> raised inside a collaborator: the module has no
  handler around those calls, so \<open>e\<close> leaves \<open>eog_clean\<close> as it is.
\<close>

datatype 'e error =
    ValueError "string list"
  | ImportError "string list"
  | Propagated 'e

definition propagate :: "'e + 'b \<Rightarrow> 'e error + 'b" where
  "propagate res = (case res of Inl e \<Rightarrow> Inl (Propagated e) | Inr y \<Rightarrow> Inr y)"

definition raises_ValueError :: "'e error + 'b \<Rightarrow> bool" where
  "raises_ValueError res =
     (case res of Inl (ValueError args) \<Rightarrow> True | Inl (ImportError args) \<Rightarrow> False
      | Inl (Propagated e) \<Rightarrow> False | Inr y \<Rightarrow> False)"

definition raises_ImportError :: "'e error + 'b \<Rightarrow> bool" where
  "raises_ImportError res =
     (case res of Inl (ValueError args) \<Rightarrow> False | Inl (ImportError args) \<Rightarrow> True
      | Inl (Propagated e) \<Rightarrow> False | Inr y \<Rightarrow> False)"

subsection \<open>Collaborators and the log of calls\<close>

text \<open>
  The keyword arguments of \<open>mne.filter.filter_data\<close> (lines 119 to 130); the two
  positional arguments, the signal and the sampling rate, are passed beside them.
\<close>

record filter_data_kwargs =
  l_freq :: real
  h_freq :: real
  filter_length :: string
  l_trans_bandwidth :: real
  h_trans_bandwidth :: real
  phase :: string
  fir_window :: string
  fir_design :: string
  verbose :: bool

text \<open>
  \<open>as_vector x\<close>, \<open>signal_filter v rate method order lowcut highcut\<close> and
  \<open>filter_data v rate kwargs\<close>. A one-dimensional array is a list of samples of any
  type \<open>'a\<close>; \<open>lowcut=None\<close> is \<open>None\<close>.
\<close>

type_synonym ('x, 'e, 'a) as_vector_fn = "'x \<Rightarrow> 'e + 'a list"

type_synonym ('e, 'a) signal_filter_fn =
  "'a list \<Rightarrow> real \<Rightarrow> string \<Rightarrow> int \<Rightarrow> real option \<Rightarrow> real option \<Rightarrow> 'e + 'a list"

type_synonym ('e, 'a) filter_data_fn =
  "'a list \<Rightarrow> real \<Rightarrow> filter_data_kwargs \<Rightarrow> 'e + 'a list"

datatype preset = Agarwal2019 | Brainstorm | Mne

text \<open>
  What a run does besides returning: the calls it makes, in order. \<open>Call_preset\<close> is
  logged on entry to one of the three private functions, \<open>Import_mne\<close> when
  \<open>import mne\<close> is executed, the others when a collaborator is called.
\<close>

datatype ('x, 'a) call =
    As_vector 'x
  | Call_preset preset "'a list" real
  | Signal_filter "'a list" real string int "real option" "real option"
  | Import_mne
  | Filter_data "'a list" real filter_data_kwargs

type_synonym ('x, 'e, 'a) run = "('e error + 'a list) \<times> ('x, 'a) call list"

definition is_Signal_filter :: "('x, 'a) call \<Rightarrow> bool" where
  "is_Signal_filter c =
     (case c of Signal_filter v r meth ord lo hi \<Rightarrow> True | As_vector x \<Rightarrow> False
      | Call_preset p v r \<Rightarrow> False | Import_mne \<Rightarrow> False | Filter_data v r kw \<Rightarrow> False)"

definition is_Filter_data :: "('x, 'a) call \<Rightarrow> bool" where
  "is_Filter_data c =
     (case c of Filter_data v r kw \<Rightarrow> True | As_vector x \<Rightarrow> False
      | Call_preset p v r \<Rightarrow> False | Import_mne \<Rightarrow> False
      | Signal_filter v r meth ord lo hi \<Rightarrow> False)"

definition after :: "('x, 'a) call list \<Rightarrow> ('x, 'e, 'a) run \<Rightarrow> ('x, 'e, 'a) run" where
  "after cs run = (fst run, cs @ snd run)"

subsection \<open>\<open>str.lower\<close>\<close>

text \<open>
  A method string is a list of characters with code points below 256. On that range
  Python's \<open>str.lower\<close> moves \<open>A\<close> to \<open>Z\<close> (65 to 90) and the capital letters of
  Latin-1 (192 to 222 without the multiplication sign 215) up by 32 and leaves every
  other character alone.
\<close>

definition lower_char :: "char \<Rightarrow> char" where
  "lower_char c =
     (let n = (of_char c :: nat)
      in if (65 \<le> n \<and> n \<le> 90) \<or> (192 \<le> n \<and> n \<le> 214) \<or> (216 \<le> n \<and> n \<le> 222)
         then char_of (n + 32) else c)"

definition lower :: "string \<Rightarrow> string" where
  "lower s = map lower_char s"

subsection \<open>The presets\<close>

definition eog_clean_agarwal2019 ::
  "('e, 'a) signal_filter_fn \<Rightarrow> 'a list \<Rightarrow> real \<Rightarrow> ('x, 'e, 'a) run" where
  "eog_clean_agarwal2019 signal_filter eog_signal sampling_rate =
     (propagate (signal_filter eog_signal sampling_rate ''butterworth'' 4 None (Some 10)),
      [Call_preset Agarwal2019 eog_signal sampling_rate,
       Signal_filter eog_signal sampling_rate ''butterworth'' 4 None (Some 10)])"

definition eog_clean_brainstorm ::
  "('e, 'a) signal_filter_fn \<Rightarrow> 'a list \<Rightarrow> real \<Rightarrow> ('x, 'e, 'a) run" where
  "eog_clean_brainstorm signal_filter eog_signal sampling_rate =
     (propagate (signal_filter eog_signal sampling_rate ''butterworth'' 4 (Some 1.5) (Some 15)),
      [Call_preset Brainstorm eog_signal sampling_rate,
       Signal_filter eog_signal sampling_rate ''butterworth'' 4 (Some 1.5) (Some 15)])"

definition mne_missing_args :: "string list" where
  "mne_missing_args =
     [''NeuroKit error: signal_filter(): the 'mne' module is required for this method to run. '',
      ''Please install it first (`pip install mne`).'']"

definition mne_kwargs :: filter_data_kwargs where
  "mne_kwargs =
     \<lparr>l_freq = 1, h_freq = 10, filter_length = ''10s'',
      l_trans_bandwidth = 0.5, h_trans_bandwidth = 0.5,
      phase = ''zero-double'', fir_window = ''hann'', fir_design = ''firwin2'',
      verbose = False\<rparr>"

text \<open>
  \<open>mne\<close> is the installed package, as the function \<open>mne.filter.filter_data\<close>, or
  \<open>None\<close> when \<open>import mne\<close> raises \<open>ImportError\<close>.
\<close>

definition eog_clean_mne ::
  "('e, 'a) filter_data_fn option \<Rightarrow> 'a list \<Rightarrow> real \<Rightarrow> ('x, 'e, 'a) run" where
  "eog_clean_mne mne eog_signal sampling_rate =
     (case mne of
        None \<Rightarrow>
          (Inl (ImportError mne_missing_args),
           [Call_preset Mne eog_signal sampling_rate, Import_mne])
      | Some filter_data \<Rightarrow>
          (propagate (filter_data eog_signal sampling_rate mne_kwargs),
           [Call_preset Mne eog_signal sampling_rate, Import_mne,
            Filter_data eog_signal sampling_rate mne_kwargs]))"

subsection \<open>The dispatcher\<close>

text \<open>
  Lines 61 to 77. The input is converted first; only then is the method lowered and
  compared, first with the list of line 66, then with the list of line 68. The method
  is a string, as the signature documents it; the defaults of the signature
  (\<open>sampling_rate=1000\<close>, \<open>method="agarwal2019"\<close>) are arguments like any other
  here. The \<open>ValueError\<close> of line 71 is built from one string, the two adjacent
  literals joined.
\<close>

definition method_error_args :: "string list" where
  "method_error_args =
     [''NeuroKit error: eog_clean(): 'method' should be one of 'agarwal2019', 'mne'.'']"

definition eog_clean ::
  "('x, 'e, 'a) as_vector_fn \<Rightarrow> ('e, 'a) signal_filter_fn \<Rightarrow> ('e, 'a) filter_data_fn option \<Rightarrow>
   'x \<Rightarrow> real \<Rightarrow> string \<Rightarrow> ('x, 'e, 'a) run" where
  "eog_clean as_vector signal_filter mne eog_signal sampling_rate method =
     (case as_vector eog_signal of
        Inl e \<Rightarrow> (Inl (Propagated e), [As_vector eog_signal])
      | Inr v \<Rightarrow>
          after [As_vector eog_signal]
            (let method = lower method
             in if method \<in> set [''agarwal'', ''agarwal2019'']
                then eog_clean_agarwal2019 signal_filter v sampling_rate
                else if method \<in> set [''mne'']
                then eog_clean_mne mne v sampling_rate
                else (Inl (ValueError method_error_args), [])))"

subsection \<open>Sample collaborators\<close>

text \<open>
  Three concrete collaborators on which the theorems below are run. Input is a flat list
  of numbers or a list of rows; \<open>sample_as_vector\<close> takes the first and refuses the
  second. \<open>sample_signal_filter\<close> halves every sample and \<open>sample_filter_data\<close>
  quarters it, so that a returned vector shows which of the two produced it.
\<close>

datatype raw = Flat "real list" | Rows "real list list"

fun sample_as_vector :: "(raw, string, real) as_vector_fn" where
  "sample_as_vector (Flat v) = Inr v"
| "sample_as_vector (Rows rs) = Inl ''not a one-dimensional array''"

definition sample_signal_filter :: "(string, real) signal_filter_fn" where
  "sample_signal_filter v rate meth ord lowcut highcut = Inr (map (\<lambda>s. s / 2) v)"

definition sample_filter_data :: "(string, real) filter_data_fn" where
  "sample_filter_data v rate kw = Inr (map (\<lambda>s. s / 4) v)"

section \<open>Properties\<close>

subsection \<open>Lowering\<close>

lemma lower_char_idem: "lower_char (lower_char c) = lower_char c"
  by (auto simp add: lower_char_def Let_def)

lemma lower_idem: "lower (lower s) = lower s"
  by (simp add: lower_def lower_char_idem)

lemma lower_AGARWAL2019: "lower ''AGARWAL2019'' = ''agarwal2019''"
  by code_simp

lemma lower_agarwal2019: "lower ''agarwal2019'' = ''agarwal2019''"
  by code_simp

lemma lower_Agarwal: "lower ''Agarwal'' = ''agarwal''"
  by code_simp

lemma lower_MNE: "lower ''MNE'' = ''mne''"
  by code_simp

lemma lower_mne: "lower ''mne'' = ''mne''"
  by code_simp

lemma lower_foo: "lower ''foo'' = ''foo''"
  by code_simp

lemma lower_brainstorm: "lower ''brainstorm'' = ''brainstorm''"
  by code_simp

subsection \<open>Steps shared by the proofs\<close>

lemma eog_clean_converted:
  "av x = Inr v \<Longrightarrow>
   eog_clean av sf mne x r m =
     after [As_vector x]
       (if lower m \<in> set [''agarwal'', ''agarwal2019''] then eog_clean_agarwal2019 sf v r
        else if lower m \<in> set [''mne''] then eog_clean_mne mne v r
        else (Inl (ValueError method_error_args), []))"
  by (simp add: eog_clean_def Let_def)

lemma eog_clean_rejected:
  "av x = Inl e \<Longrightarrow> eog_clean av sf mne x r m = (Inl (Propagated e), [As_vector x])"
  by (simp add: eog_clean_def)

lemma raises_ValueError_simps:
  "raises_ValueError (Inl (ValueError args)) = True"
  "raises_ValueError (Inl (ImportError args)) = False"
  "raises_ValueError (Inl (Propagated e)) = False"
  "raises_ValueError (Inr y) = False"
  by (simp_all add: raises_ValueError_def)

lemma raises_ImportError_simps:
  "raises_ImportError (Inl (ValueError args)) = False"
  "raises_ImportError (Inl (ImportError args)) = True"
  "raises_ImportError (Inl (Propagated e)) = False"
  "raises_ImportError (Inr y) = False"
  by (simp_all add: raises_ImportError_def)

lemma raises_ValueError_propagate: "\<not> raises_ValueError (propagate res)"
  by (simp add: raises_ValueError_def propagate_def split: sum.splits)

lemma raises_ImportError_propagate: "\<not> raises_ImportError (propagate res)"
  by (simp add: raises_ImportError_def propagate_def split: sum.splits)

lemma propagate_simps:
  "propagate (Inl e) = Inl (Propagated e)"
  "propagate (Inr y) = Inr y"
  by (simp_all add: propagate_def)

lemma fst_after: "fst (after cs run) = fst run"
  by (simp add: after_def)

lemma snd_after: "snd (after cs run) = cs @ snd run"
  by (simp add: after_def)

lemma fst_agarwal2019:
  "fst (eog_clean_agarwal2019 sf v r) = propagate (sf v r ''butterworth'' 4 None (Some 10))"
  by (simp add: eog_clean_agarwal2019_def)

lemma fst_mne_present:
  "fst (eog_clean_mne (Some fd) v r) = propagate (fd v r mne_kwargs)"
  by (simp add: eog_clean_mne_def)

lemma fst_mne_absent:
  "fst (eog_clean_mne None v r) = Inl (ImportError mne_missing_args)"
  by (simp add: eog_clean_mne_def)

lemma method_message_names_options:
  "sublist ''agarwal2019'' (hd method_error_args) \<and> sublist ''mne'' (hd method_error_args)"
  by code_simp

lemma mne_message_facts:
  "length mne_missing_args = 2
   \<and> sublist ''signal_filter()'' (mne_missing_args ! 0)
   \<and> \<not> sublist ''eog_clean'' (concat mne_missing_args)
   \<and> sublist ''the 'mne' module is required'' (mne_missing_args ! 0)
   \<and> sublist ''Please install it first (`pip install mne`)'' (mne_missing_args ! 1)"
  by code_simp

lemma snd_mne:
  "Import_mne \<in> set (snd (eog_clean_mne mne v r))"
  by (cases mne) (simp_all add: eog_clean_mne_def)

lemma snd_agarwal2019:
  "Import_mne \<notin> set (snd (eog_clean_agarwal2019 sf v r))"
  by (simp add: eog_clean_agarwal2019_def)

lemma snd_brainstorm:
  "snd (eog_clean_brainstorm sf v r) =
     [Call_preset Brainstorm v r, Signal_filter v r ''butterworth'' 4 (Some 1.5) (Some 15)]"
  by (simp add: eog_clean_brainstorm_def)

lemma calls_of_eog_clean:
  "set (snd (eog_clean av sf mne x r m)) \<subseteq>
     {As_vector x, Import_mne} \<union>
     {c. \<exists>v. c = Call_preset Agarwal2019 v r \<or> c = Call_preset Mne v r
            \<or> c = Signal_filter v r ''butterworth'' 4 None (Some 10)
            \<or> c = Filter_data v r mne_kwargs}"
  by (cases "av x"; cases mne)
     (auto simp add: eog_clean_def Let_def after_def eog_clean_agarwal2019_def
        eog_clean_mne_def)

subsection \<open>C1: an unrecognized method\<close>

text \<open>
  Claim C1. A signal is an input that \<open>as_vector\<close> converts to a vector \<open>v\<close>. For every
  such signal, every sampling rate and every method string, \<open>eog_clean\<close> raises its
  \<open>ValueError\<close> (the one of line 71) exactly when the lowered method is none of
  \<open>agarwal\<close>, \<open>agarwal2019\<close> and \<open>mne\<close>. On that path the run is the conversion
  followed by the raise: no preset is entered, no filter is called and no vector comes
  back. The message names the options \<open>agarwal2019\<close> and \<open>mne\<close>.
\<close>

theorem unrecognized_method_raises_ValueError:
  assumes "av x = Inr v"
  shows "(raises_ValueError (fst (eog_clean av sf mne x r m))
            \<longleftrightarrow> lower m \<notin> {''agarwal'', ''agarwal2019'', ''mne''})
       \<and> (lower m \<notin> {''agarwal'', ''agarwal2019'', ''mne''} \<longrightarrow>
            eog_clean av sf mne x r m = (Inl (ValueError method_error_args), [As_vector x]))
       \<and> sublist ''agarwal2019'' (hd method_error_args)
       \<and> sublist ''mne'' (hd method_error_args)"
proof -
  note run = eog_clean_converted [of av x v, OF assms]
  have iff: "raises_ValueError (fst (eog_clean av sf mne x r m))
            \<longleftrightarrow> lower m \<notin> {''agarwal'', ''agarwal2019'', ''mne''}"
    by (cases mne)
       (simp_all add: run fst_after fst_agarwal2019 fst_mne_present fst_mne_absent
          raises_ValueError_propagate raises_ValueError_simps)
  have path: "lower m \<notin> {''agarwal'', ''agarwal2019'', ''mne''} \<longrightarrow>
            eog_clean av sf mne x r m = (Inl (ValueError method_error_args), [As_vector x])"
    by (simp add: run after_def)
  from iff path method_message_names_options show ?thesis by blast
qed

theorem unrecognized_method_raises_ValueError_witness:
  "sample_as_vector (Flat [1, 2, 3]) = Inr [1, 2, 3]
   \<and> lower ''foo'' \<notin> {''agarwal'', ''agarwal2019'', ''mne''}
   \<and> raises_ValueError (fst (eog_clean sample_as_vector sample_signal_filter
        (Some sample_filter_data) (Flat [1, 2, 3]) 100 ''foo''))
   \<and> eog_clean sample_as_vector sample_signal_filter (Some sample_filter_data)
        (Flat [1, 2, 3]) 100 ''foo''
      = (Inl (ValueError method_error_args), [As_vector (Flat [1, 2, 3])])
   \<and> \<not> raises_ValueError (fst (eog_clean sample_as_vector sample_signal_filter
        (Some sample_filter_data) (Flat [1, 2, 3]) 100 ''AGARWAL2019''))"
  using unrecognized_method_raises_ValueError
          [of sample_as_vector "Flat [1, 2, 3]" "[1, 2, 3]" sample_signal_filter
              "Some sample_filter_data" 100 "''foo''"]
        unrecognized_method_raises_ValueError
          [of sample_as_vector "Flat [1, 2, 3]" "[1, 2, 3]" sample_signal_filter
              "Some sample_filter_data" 100 "''AGARWAL2019''"]
  by (simp add: lower_foo lower_AGARWAL2019 raises_ValueError_simps)

subsection \<open>C2: the agarwal2019 preset\<close>

text \<open>
  Claim C2. For every signal \<open>v\<close> that \<open>as_vector\<close> returned and every sampling
  rate, a method that lowers to \<open>agarwal2019\<close> or \<open>agarwal\<close> makes \<open>eog_clean\<close>
  call \<open>signal_filter\<close> exactly once, with the family \<open>butterworth\<close>, order 4, no low
  cutoff and a high cutoff of 10, and what that call gives is what \<open>eog_clean\<close> gives:
  the filtered vector as it is, or the exception the filter raised.
\<close>

theorem agarwal2019_calls_signal_filter_once:
  assumes "av x = Inr v" and "lower m \<in> {''agarwal'', ''agarwal2019''}"
  shows "eog_clean av sf mne x r m =
           (propagate (sf v r ''butterworth'' 4 None (Some 10)),
            [As_vector x, Call_preset Agarwal2019 v r,
             Signal_filter v r ''butterworth'' 4 None (Some 10)])
       \<and> length (filter is_Signal_filter (snd (eog_clean av sf mne x r m))) = 1
       \<and> (sf v r ''butterworth'' 4 None (Some 10) = Inr w \<longrightarrow>
            fst (eog_clean av sf mne x r m) = Inr w)"
proof -
  have run: "eog_clean av sf mne x r m =
           (propagate (sf v r ''butterworth'' 4 None (Some 10)),
            [As_vector x, Call_preset Agarwal2019 v r,
             Signal_filter v r ''butterworth'' 4 None (Some 10)])"
    using assms
    by (auto simp add: eog_clean_converted [of av x v] after_def eog_clean_agarwal2019_def)
  have once: "length (filter is_Signal_filter (snd (eog_clean av sf mne x r m))) = 1"
    by (simp add: run is_Signal_filter_def)
  have result: "sf v r ''butterworth'' 4 None (Some 10) = Inr w \<longrightarrow>
            fst (eog_clean av sf mne x r m) = Inr w"
    by (simp add: run propagate_simps)
  from run once result show ?thesis by blast
qed

theorem agarwal2019_calls_signal_filter_once_witness:
  "sample_as_vector (Flat [2, 4, 6]) = Inr [2, 4, 6]
   \<and> lower ''Agarwal'' \<in> {''agarwal'', ''agarwal2019''}
   \<and> sample_signal_filter [2, 4, 6] 100 ''butterworth'' 4 None (Some 10) = Inr [1, 2, 3]
   \<and> eog_clean sample_as_vector sample_signal_filter None (Flat [2, 4, 6]) 100 ''Agarwal''
      = (Inr [1, 2, 3],
         [As_vector (Flat [2, 4, 6]), Call_preset Agarwal2019 [2, 4, 6] 100,
          Signal_filter [2, 4, 6] 100 ''butterworth'' 4 None (Some 10)])"
  using agarwal2019_calls_signal_filter_once
          [of sample_as_vector "Flat [2, 4, 6]" "[2, 4, 6]" "''Agarwal''" sample_signal_filter
              None 100 "[1, 2, 3]"]
  by (simp add: lower_Agarwal sample_signal_filter_def propagate_simps)


subsection \<open>C3: the mne preset\<close>

text \<open>
  Claim C3. For every signal \<open>v\<close> that \<open>as_vector\<close> returned and every sampling
  rate, with the package installed, a method that lowers to \<open>mne\<close> makes
  \<open>eog_clean\<close> call \<open>mne.filter.filter_data\<close> exactly once, with low cutoff 1, high
  cutoff 10, filter length \<open>10s\<close>, transition bandwidths 0.5 on both edges, phase
  \<open>zero-double\<close>, a Hann window and the \<open>firwin2\<close> design, and what that call gives is
  what \<open>eog_clean\<close> gives.
\<close>

theorem mne_calls_filter_data_once:
  assumes "av x = Inr v" and "lower m = ''mne''" and "mne = Some fd"
  shows "eog_clean av sf mne x r m =
           (propagate (fd v r mne_kwargs),
            [As_vector x, Call_preset Mne v r, Import_mne, Filter_data v r mne_kwargs])
       \<and> length (filter is_Filter_data (snd (eog_clean av sf mne x r m))) = 1
       \<and> (fd v r mne_kwargs = Inr w \<longrightarrow> fst (eog_clean av sf mne x r m) = Inr w)
       \<and> l_freq mne_kwargs = 1 \<and> h_freq mne_kwargs = 10
       \<and> filter_length mne_kwargs = ''10s''
       \<and> l_trans_bandwidth mne_kwargs = 0.5 \<and> h_trans_bandwidth mne_kwargs = 0.5
       \<and> phase mne_kwargs = ''zero-double''
       \<and> fir_window mne_kwargs = ''hann'' \<and> fir_design mne_kwargs = ''firwin2''"
proof -
  have run: "eog_clean av sf mne x r m =
           (propagate (fd v r mne_kwargs),
            [As_vector x, Call_preset Mne v r, Import_mne, Filter_data v r mne_kwargs])"
    using assms
    by (simp add: eog_clean_converted [of av x v] after_def eog_clean_mne_def)
  have once: "length (filter is_Filter_data (snd (eog_clean av sf mne x r m))) = 1"
    by (simp add: run is_Filter_data_def)
  have result: "fd v r mne_kwargs = Inr w \<longrightarrow> fst (eog_clean av sf mne x r m) = Inr w"
    by (simp add: run propagate_simps)
  have kwargs: "l_freq mne_kwargs = 1 \<and> h_freq mne_kwargs = 10
       \<and> filter_length mne_kwargs = ''10s''
       \<and> l_trans_bandwidth mne_kwargs = 0.5 \<and> h_trans_bandwidth mne_kwargs = 0.5
       \<and> phase mne_kwargs = ''zero-double''
       \<and> fir_window mne_kwargs = ''hann'' \<and> fir_design mne_kwargs = ''firwin2''"
    by (simp add: mne_kwargs_def)
  from run once result kwargs show ?thesis by blast
qed

theorem mne_calls_filter_data_once_witness:
  "sample_as_vector (Flat [4, 8]) = Inr [4, 8]
   \<and> lower ''MNE'' = ''mne''
   \<and> sample_filter_data [4, 8] 100 mne_kwargs = Inr [1, 2]
   \<and> eog_clean sample_as_vector sample_signal_filter (Some sample_filter_data)
        (Flat [4, 8]) 100 ''MNE''
      = (Inr [1, 2],
         [As_vector (Flat [4, 8]), Call_preset Mne [4, 8] 100, Import_mne,
          Filter_data [4, 8] 100 mne_kwargs])"
  using mne_calls_filter_data_once
          [of sample_as_vector "Flat [4, 8]" "[4, 8]" "''MNE''" "Some sample_filter_data"
              sample_filter_data sample_signal_filter 100 "[1, 2]"]
  by (simp add: lower_MNE sample_filter_data_def propagate_simps)


subsection \<open>C4: the mne preset without the package\<close>

text \<open>
  Claim C4. For every signal that \<open>as_vector\<close> converts, \<open>eog_clean\<close> raises
  \<open>ImportError\<close> exactly when the method lowers to \<open>mne\<close> and the package is absent.
  The first argument of the error names the \<open>mne\<close> module and the second tells the
  caller to install it. The import is attempted inside the call and only on the
  \<open>mne\<close> branch: \<open>import mne\<close> is in the log exactly when the method lowers to
  \<open>mne\<close>, and under any other method the run is the same whether the package is
  installed or not.
\<close>

theorem mne_missing_raises_ImportError:
  assumes "av x = Inr v"
  shows "(raises_ImportError (fst (eog_clean av sf mne x r m))
            \<longleftrightarrow> lower m = ''mne'' \<and> mne = None)
       \<and> (lower m = ''mne'' \<and> mne = None \<longrightarrow>
            eog_clean av sf mne x r m =
              (Inl (ImportError mne_missing_args),
               [As_vector x, Call_preset Mne v r, Import_mne]))
       \<and> (Import_mne \<in> set (snd (eog_clean av sf mne x r m)) \<longleftrightarrow> lower m = ''mne'')
       \<and> (lower m \<noteq> ''mne'' \<longrightarrow>
            eog_clean av sf mne x r m = eog_clean av sf None x r m)
       \<and> sublist ''the 'mne' module is required'' (mne_missing_args ! 0)
       \<and> sublist ''Please install it first (`pip install mne`)'' (mne_missing_args ! 1)"
proof -
  note run = eog_clean_converted [of av x v, OF assms]
  have iff: "raises_ImportError (fst (eog_clean av sf mne x r m))
            \<longleftrightarrow> lower m = ''mne'' \<and> mne = None"
    by (cases mne)
       (simp_all add: run fst_after fst_agarwal2019 fst_mne_present fst_mne_absent
          raises_ImportError_propagate raises_ImportError_simps)
  have path: "lower m = ''mne'' \<and> mne = None \<longrightarrow>
            eog_clean av sf mne x r m =
              (Inl (ImportError mne_missing_args),
               [As_vector x, Call_preset Mne v r, Import_mne])"
    by (simp add: run after_def eog_clean_mne_def)
  have lazy: "Import_mne \<in> set (snd (eog_clean av sf mne x r m)) \<longleftrightarrow> lower m = ''mne''"
    by (simp add: run snd_after snd_mne snd_agarwal2019)
  have unused: "lower m \<noteq> ''mne'' \<longrightarrow>
            eog_clean av sf mne x r m = eog_clean av sf None x r m"
    by (simp add: run)
  from iff path lazy unused mne_message_facts show ?thesis by blast
qed

theorem mne_missing_raises_ImportError_witness:
  "sample_as_vector (Flat [4, 8]) = Inr [4, 8]
   \<and> lower ''mne'' = ''mne''
   \<and> raises_ImportError (fst (eog_clean sample_as_vector sample_signal_filter None
        (Flat [4, 8]) 100 ''mne''))
   \<and> eog_clean sample_as_vector sample_signal_filter None (Flat [4, 8]) 100 ''mne''
      = (Inl (ImportError mne_missing_args),
         [As_vector (Flat [4, 8]), Call_preset Mne [4, 8] 100, Import_mne])
   \<and> lower ''agarwal2019'' \<noteq> ''mne''
   \<and> Import_mne \<notin> set (snd (eog_clean sample_as_vector sample_signal_filter None
        (Flat [4, 8]) 100 ''agarwal2019''))
   \<and> \<not> raises_ImportError (fst (eog_clean sample_as_vector sample_signal_filter None
        (Flat [4, 8]) 100 ''agarwal2019''))"
  using mne_missing_raises_ImportError
          [of sample_as_vector "Flat [4, 8]" "[4, 8]" sample_signal_filter None 100 "''mne''"]
        mne_missing_raises_ImportError
          [of sample_as_vector "Flat [4, 8]" "[4, 8]" sample_signal_filter None 100
              "''agarwal2019''"]
  by (simp add: lower_mne lower_agarwal2019 raises_ImportError_simps)


subsection \<open>C5: the case of the method string\<close>

text \<open>
  Claim C5. The method is read without regard to case: for every input, sampling rate,
  method string \<open>m\<close> and collaborators, \<open>eog_clean\<close> does the same with \<open>m\<close> as with
  \<open>lower m\<close>, result and calls alike; in particular \<open>AGARWAL2019\<close> and
  \<open>agarwal2019\<close> give the same.
\<close>

theorem method_is_case_insensitive:
  "eog_clean av sf mne x r m = eog_clean av sf mne x r (lower m)
   \<and> eog_clean av sf mne x r ''AGARWAL2019'' = eog_clean av sf mne x r ''agarwal2019''"
  by (cases "av x")
     (simp_all add: eog_clean_def Let_def lower_idem lower_AGARWAL2019 lower_agarwal2019)

theorem method_is_case_insensitive_witness:
  "eog_clean sample_as_vector sample_signal_filter None (Flat [2, 4]) 100 ''Agarwal''
     = eog_clean sample_as_vector sample_signal_filter None (Flat [2, 4]) 100 (lower ''Agarwal'')
   \<and> eog_clean sample_as_vector sample_signal_filter None (Flat [2, 4]) 100 ''AGARWAL2019''
     = eog_clean sample_as_vector sample_signal_filter None (Flat [2, 4]) 100 ''agarwal2019''"
  using method_is_case_insensitive
          [of sample_as_vector sample_signal_filter None "Flat [2, 4]" 100 "''Agarwal''"]
  by simp


subsection \<open>C6: the length and order of the output\<close>

text \<open>
  Claim C6. Let the input convert to a vector \<open>v\<close> and the method be one of the
  recognized three. Let \<open>w\<close> be the vector that the collaborator selected by the method
  returns for \<open>v\<close>, as long as \<open>v\<close>, as the contract of the collaborators promises:
  \<open>signal_filter\<close> under the parameters of the agarwal2019 preset, or, for the mne
  preset, \<open>filter_data\<close> of the installed package under its keyword arguments. Then
  \<open>eog_clean\<close> returns that very vector \<open>w\<close>: it has the length of the input, and
  sample for sample it is what the filter returned, nothing reordered, dropped or
  replaced.
\<close>

theorem output_length_equals_input_length:
  assumes "av x = Inr v"
    and "lower m \<in> {''agarwal'', ''agarwal2019'', ''mne''}"
    and "lower m \<in> {''agarwal'', ''agarwal2019''} \<Longrightarrow>
           sf v r ''butterworth'' 4 None (Some 10) = Inr w \<and> length w = length v"
    and "lower m = ''mne'' \<Longrightarrow>
           \<exists>fd. mne = Some fd \<and> fd v r mne_kwargs = Inr w \<and> length w = length v"
  shows "fst (eog_clean av sf mne x r m) = Inr w
       \<and> length (projr (fst (eog_clean av sf mne x r m))) = length v
       \<and> (\<forall>i < length v. projr (fst (eog_clean av sf mne x r m)) ! i = w ! i)"
proof -
  have res: "fst (eog_clean av sf mne x r m) = Inr w" and len: "length w = length v"
  proof -
    show "fst (eog_clean av sf mne x r m) = Inr w"
    proof (cases "lower m = ''mne''")
      case True
      with assms(4) obtain fd where "mne = Some fd" and "fd v r mne_kwargs = Inr w"
        by blast
      with True show ?thesis
        by (simp add: eog_clean_converted [of av x v, OF assms(1)] fst_after fst_mne_present
              propagate_simps)
    next
      case False
      with assms(2) have sel: "lower m \<in> {''agarwal'', ''agarwal2019''}" by simp
      with assms(3) have "sf v r ''butterworth'' 4 None (Some 10) = Inr w" by blast
      with sel show ?thesis
        by (auto simp add: eog_clean_converted [of av x v, OF assms(1)] fst_after
              fst_agarwal2019 propagate_simps)
    qed
    show "length w = length v"
      using assms(2-4) by (cases "lower m = ''mne''") auto
  qed
  from res len show ?thesis by simp
qed

theorem output_length_equals_input_length_witness:
  "sample_as_vector (Flat [2, 4, 6]) = Inr [2, 4, 6]
   \<and> sample_signal_filter [2, 4, 6] 100 ''butterworth'' 4 None (Some 10) = Inr [1, 2, 3]
   \<and> fst (eog_clean sample_as_vector sample_signal_filter (Some sample_filter_data)
            (Flat [2, 4, 6]) 100 ''agarwal2019'') = Inr [1, 2, 3]
   \<and> sample_as_vector (Flat [4, 8]) = Inr [4, 8]
   \<and> sample_filter_data [4, 8] 100 mne_kwargs = Inr [1, 2]
   \<and> fst (eog_clean sample_as_vector sample_signal_filter (Some sample_filter_data)
            (Flat [4, 8]) 100 ''MNE'') = Inr [1, 2]"
proof -
  have a: "fst (eog_clean sample_as_vector sample_signal_filter (Some sample_filter_data)
            (Flat [2, 4, 6]) 100 ''agarwal2019'') = Inr [1, 2, 3]"
    using output_length_equals_input_length
            [of sample_as_vector "Flat [2, 4, 6]" "[2, 4, 6]" "''agarwal2019''"
                sample_signal_filter 100 "[1, 2, 3]" "Some sample_filter_data"]
    by (simp add: lower_agarwal2019 sample_signal_filter_def)
  have b: "fst (eog_clean sample_as_vector sample_signal_filter (Some sample_filter_data)
            (Flat [4, 8]) 100 ''MNE'') = Inr [1, 2]"
    using output_length_equals_input_length
            [of sample_as_vector "Flat [4, 8]" "[4, 8]" "''MNE''"
                sample_signal_filter 100 "[1, 2]" "Some sample_filter_data"]
    by (simp add: lower_MNE sample_filter_data_def)
  from a b show ?thesis
    by (simp add: sample_signal_filter_def sample_filter_data_def)
qed


subsection \<open>C7: the brainstorm preset\<close>

text \<open>
  Claim C7. The brainstorm preset is a Butterworth band-pass of order 4 from 1.5 to 15.
  No run of \<open>eog_clean\<close> enters it: whatever the input, the sampling rate, the method
  string and the collaborators, the log of \<open>eog_clean\<close> holds neither an entry to the
  brainstorm preset nor the filter call that preset makes.
\<close>

theorem brainstorm_is_never_called:
  "Call_preset Brainstorm v' r' \<notin> set (snd (eog_clean av sf mne x r m))
   \<and> Signal_filter v' r' ''butterworth'' 4 (Some 1.5) (Some 15)
        \<notin> set (snd (eog_clean av sf mne x r m))
   \<and> set (snd (eog_clean_brainstorm sf' v' r')) \<inter> set (snd (eog_clean av sf mne x r m)) = {}
   \<and> eog_clean_brainstorm sf' v' r' =
       (propagate (sf' v' r' ''butterworth'' 4 (Some 1.5) (Some 15)),
        [Call_preset Brainstorm v' r',
         Signal_filter v' r' ''butterworth'' 4 (Some 1.5) (Some 15)])"
proof -
  have a: "Call_preset Brainstorm v' r' \<notin> set (snd (eog_clean av sf mne x r m))"
    using calls_of_eog_clean [of av sf mne x r m] by auto
  have b: "Signal_filter v' r' ''butterworth'' 4 (Some 1.5) (Some 15)
        \<notin> set (snd (eog_clean av sf mne x r m))"
    using calls_of_eog_clean [of av sf mne x r m] by auto
  have c: "set (snd (eog_clean_brainstorm sf' v' r')) \<inter> set (snd (eog_clean av sf mne x r m)) = {}"
    using a b by (simp add: snd_brainstorm)
  have d: "eog_clean_brainstorm sf' v' r' =
       (propagate (sf' v' r' ''butterworth'' 4 (Some 1.5) (Some 15)),
        [Call_preset Brainstorm v' r',
         Signal_filter v' r' ''butterworth'' 4 (Some 1.5) (Some 15)])"
    by (simp add: eog_clean_brainstorm_def)
  from a b c d show ?thesis by blast
qed

theorem brainstorm_is_never_called_witness:
  "Call_preset Brainstorm [2, 4] 100
     \<notin> set (snd (eog_clean sample_as_vector sample_signal_filter (Some sample_filter_data)
                (Flat [2, 4]) 100 ''brainstorm''))
   \<and> raises_ValueError (fst (eog_clean sample_as_vector sample_signal_filter
        (Some sample_filter_data) (Flat [2, 4]) 100 ''brainstorm''))"
  using brainstorm_is_never_called
          [of "[2, 4]" 100 sample_as_vector sample_signal_filter "Some sample_filter_data"
              "Flat [2, 4]" 100 "''brainstorm''" sample_signal_filter]
  by (simp add: eog_clean_def Let_def lower_brainstorm after_def raises_ValueError_simps)


subsection \<open>C8: the zero signal\<close>

text \<open>
  Claim C8. Let the input convert to the vector of \<open>n\<close> zeros, and let
  \<open>signal_filter\<close>, as a linear filter does, return \<open>n\<close> zeros for it under the
  parameters of the agarwal2019 preset. Then \<open>eog_clean\<close> with the method
  \<open>agarwal2019\<close> returns the vector of \<open>n\<close> zeros.
\<close>

theorem zero_signal_stays_zero:
  assumes "av x = Inr (replicate n 0)"
    and "sf (replicate n 0) r ''butterworth'' 4 None (Some 10) = Inr (replicate n 0)"
  shows "fst (eog_clean av sf mne x r ''agarwal2019'') = Inr (replicate n 0)
       \<and> length (replicate n (0::'a::zero)) = n"
  using assms
  by (simp add: eog_clean_converted [of av x "replicate n 0"] lower_agarwal2019 fst_after
        fst_agarwal2019 propagate_simps)

theorem zero_signal_stays_zero_witness:
  "sample_as_vector (Flat (replicate 3 0)) = Inr (replicate 3 0)
   \<and> sample_signal_filter (replicate 3 0) 100 ''butterworth'' 4 None (Some 10)
       = Inr (replicate 3 0)
   \<and> fst (eog_clean sample_as_vector sample_signal_filter None (Flat (replicate 3 0)) 100
        ''agarwal2019'') = Inr [0, 0, 0]"
proof -
  have h1: "sample_as_vector (Flat (replicate 3 0)) = Inr (replicate 3 0)"
    by simp
  have h2: "sample_signal_filter (replicate 3 0) 100 ''butterworth'' 4 None (Some 10)
       = Inr (replicate 3 0)"
    by (simp add: sample_signal_filter_def)
  have "replicate 3 (0::real) = [0, 0, 0]"
    by (simp add: numeral_3_eq_3)
  with h1 h2
    zero_signal_stays_zero
      [of sample_as_vector "Flat (replicate 3 0)" 3 sample_signal_filter 100 None]
  show ?thesis
    by simp
qed


subsection \<open>C9: conversion comes before the method\<close>

text \<open>
  Claim C9. Every run begins with the call of \<open>as_vector\<close>. If that call raises, its
  exception is the outcome of \<open>eog_clean\<close> and nothing else is called, whatever the
  method string, recognized or not. So the \<open>ValueError\<close> for an unrecognized method is
  raised only for an input that \<open>as_vector\<close> converted.
\<close>

theorem as_vector_runs_first:
  "(av x = Inl e \<longrightarrow> eog_clean av sf mne x r m = (Inl (Propagated e), [As_vector x]))
   \<and> (raises_ValueError (fst (eog_clean av sf mne x r m)) \<longrightarrow> (\<exists>v. av x = Inr v))
   \<and> (\<exists>cs. snd (eog_clean av sf mne x r m) = As_vector x # cs)"
proof (cases "av x")
  case (Inl e')
  then show ?thesis
    by (simp add: eog_clean_rejected [of av x e'] raises_ValueError_simps)
next
  case (Inr v)
  then show ?thesis
    by (simp add: eog_clean_converted [of av x v] snd_after)
qed

theorem as_vector_runs_first_witness:
  "sample_as_vector (Rows [[1, 2], [3, 4]]) = Inl ''not a one-dimensional array''
   \<and> eog_clean sample_as_vector sample_signal_filter None (Rows [[1, 2], [3, 4]]) 100 ''foo''
       = (Inl (Propagated ''not a one-dimensional array''), [As_vector (Rows [[1, 2], [3, 4]])])
   \<and> eog_clean sample_as_vector sample_signal_filter None (Rows [[1, 2], [3, 4]]) 100
        ''agarwal2019''
       = (Inl (Propagated ''not a one-dimensional array''), [As_vector (Rows [[1, 2], [3, 4]])])
   \<and> raises_ValueError (fst (eog_clean sample_as_vector sample_signal_filter None
        (Flat [1, 2]) 100 ''foo''))
   \<and> (\<exists>v. sample_as_vector (Flat [1, 2]) = Inr v)"
  using as_vector_runs_first
          [of sample_as_vector "Rows [[1, 2], [3, 4]]" "''not a one-dimensional array''"
              sample_signal_filter None 100 "''foo''"]
        as_vector_runs_first
          [of sample_as_vector "Rows [[1, 2], [3, 4]]" "''not a one-dimensional array''"
              sample_signal_filter None 100 "''agarwal2019''"]
        as_vector_runs_first
          [of sample_as_vector "Flat [1, 2]" "''''" sample_signal_filter None 100 "''foo''"]
  by (simp add: eog_clean_def Let_def lower_foo after_def raises_ValueError_simps)


subsection \<open>C10: the arguments of the ImportError\<close>

text \<open>
  Claim C10. Without the package, the mne preset raises an \<open>ImportError\<close> built from two
  strings, so that its arguments are a pair. The text speaks of \<open>signal_filter()\<close> and
  nowhere of \<open>eog_clean\<close>; it names the \<open>mne\<close> module and gives the command
  \<open>pip install mne\<close>.
\<close>

theorem mne_missing_error_has_two_arguments:
  "eog_clean_mne None v r =
     (Inl (ImportError mne_missing_args), [Call_preset Mne v r, Import_mne])
   \<and> length mne_missing_args = 2
   \<and> sublist ''signal_filter()'' (mne_missing_args ! 0)
   \<and> \<not> sublist ''eog_clean'' (concat mne_missing_args)
   \<and> sublist ''the 'mne' module is required'' (mne_missing_args ! 0)
   \<and> sublist ''Please install it first (`pip install mne`)'' (mne_missing_args ! 1)"
  using mne_message_facts by (simp add: eog_clean_mne_def)

theorem mne_missing_error_has_two_arguments_witness:
  "fst (eog_clean_mne None [4, 8] 100 :: (raw, string, real) run)
     = Inl (ImportError mne_missing_args)
   \<and> snd (eog_clean_mne None [4, 8] 100 :: (raw, string, real) run)
     = [Call_preset Mne [4, 8] 100, Import_mne]
   \<and> length mne_missing_args = 2"
  by (simp add: mne_missing_error_has_two_arguments)


end
